theory Spec2Isabelle
  imports Main "HOL-Library.AList" "HOL-Library.Log_Nat" "HOL-Library.Sublist"
begin

section \<open>Dictionaries\<close>

text \<open>
  A Python \<^verbatim>\<open>dict\<close> is an association list in insertion order whose keys are pairwise
  distinct.  \<^verbatim>\<open>d[k] = v\<close> replaces the value in place when the key is present and appends
  the entry otherwise, which is \<^const>\<open>AList.update\<close>; a lookup is \<^const>\<open>map_of\<close>.
\<close>

type_synonym ('k, 'v) dict = "('k \<times> 'v) list"

definition is_dict :: "('k, 'v) dict \<Rightarrow> bool" where
  "is_dict d = distinct (map fst d)"

definition dict_keys :: "('k, 'v) dict \<Rightarrow> 'k list" where
  "dict_keys d = map fst d"

text \<open>\<^verbatim>\<open>d.update(other)\<close>: every item of \<^verbatim>\<open>other\<close>, in its order, is stored into \<^verbatim>\<open>d\<close>.\<close>

definition dict_update :: "('k, 'v) dict \<Rightarrow> ('k, 'v) dict \<Rightarrow> ('k, 'v) dict" where
  "dict_update d other = fold (\<lambda>(k, v) acc. AList.update k v acc) other d"

text \<open>
  Lines 78 to 80 of \<^verbatim>\<open>build_raw_block\<close>:
  \<^verbatim>\<open>combined = {}; combined.update(FIXED_HISTORICAL); combined.update(api_data)\<close>.
\<close>

definition merge :: "('k, 'v) dict \<Rightarrow> ('k, 'v) dict \<Rightarrow> ('k, 'v) dict" where
  "merge fixed fetched = dict_update (dict_update [] fixed) fetched"

section \<open>Strings\<close>

text \<open>
  A Python \<^verbatim>\<open>str\<close> is a \<^typ>\<open>string\<close>; each \<^typ>\<open>char\<close> stands for one code point
  below 256.  \<^verbatim>\<open>str.strip()\<close> removes the code points for which \<^verbatim>\<open>str.isspace\<close> holds.
\<close>

definition is_space :: "char \<Rightarrow> bool" where
  "is_space c = (let n = (of_char c :: nat)
     in (9 \<le> n \<and> n \<le> 13) \<or> (28 \<le> n \<and> n \<le> 32) \<or> n = 133 \<or> n = 160)"

definition strip_with :: "(char \<Rightarrow> bool) \<Rightarrow> string \<Rightarrow> string" where
  "strip_with P s = rev (dropWhile P (rev (dropWhile P s)))"

definition str_strip :: "string \<Rightarrow> string" where
  "str_strip s = strip_with is_space s"

definition str_strip_char :: "char \<Rightarrow> string \<Rightarrow> string" where
  "str_strip_char q s = strip_with (\<lambda>c. c = q) s"

definition str_replace_comma :: "string \<Rightarrow> string" where
  "str_replace_comma s = map (\<lambda>c. if c = CHR '','' then CHR ''.'' else c) s"

text \<open>Line 55: \<^verbatim>\<open>c.strip().strip('"').strip("'").replace(",", ".")\<close>.\<close>

definition clean_cell :: "string \<Rightarrow> string" where
  "clean_cell c =
     str_replace_comma (str_strip_char (CHR 0x27) (str_strip_char (CHR 0x22) (str_strip c)))"

text \<open>\<^verbatim>\<open>sep.join(xs)\<close>.\<close>

fun str_join :: "string \<Rightarrow> string list \<Rightarrow> string" where
  "str_join sep [] = []"
| "str_join sep [x] = x"
| "str_join sep (x # y # ys) = x @ sep @ str_join sep (y # ys)"

text \<open>\<^verbatim>\<open>s.rjust(w)\<close>, which is what the format specification \<^verbatim>\<open>>5\<close> does with \<open>w = 5\<close>.\<close>

definition rjust :: "nat \<Rightarrow> string \<Rightarrow> string" where
  "rjust w s = replicate (w - length s) (CHR '' '') @ s"

section \<open>Integers and their text\<close>

definition is_digit :: "char \<Rightarrow> bool" where
  "is_digit c = (let n = (of_char c :: nat) in 48 \<le> n \<and> n \<le> 57)"

definition digit_val :: "char \<Rightarrow> nat" where
  "digit_val c = of_char c - 48"

definition nat_of_digits :: "string \<Rightarrow> nat" where
  "nat_of_digits ds = foldl (\<lambda>a c. 10 * a + digit_val c) 0 ds"

definition digit_char :: "nat \<Rightarrow> char" where
  "digit_char n = char_of (48 + n)"

fun digits_of_nat :: "nat \<Rightarrow> string" where
  "digits_of_nat n =
     (if n < 10 then [digit_char n] else digits_of_nat (n div 10) @ [digit_char (n mod 10)])"

declare digits_of_nat.simps [simp del]

text \<open>\<^verbatim>\<open>str(i)\<close> for an integer.\<close>

definition str_int :: "int \<Rightarrow> string" where
  "str_int i = (if i < 0 then CHR ''-'' # digits_of_nat (nat (- i)) else digits_of_nat (nat i))"

text \<open>
  \<^verbatim>\<open>int(s)\<close> and \<^verbatim>\<open>float(s)\<close> first turn the code points \<^verbatim>\<open>0x85\<close> and \<^verbatim>\<open>0xA0\<close> into a
  blank and every other code point from 127 on into \<^verbatim>\<open>?\<close>, then skip the white space of C
  at both ends.
\<close>

definition to_ascii :: "char \<Rightarrow> char" where
  "to_ascii c = (let n = (of_char c :: nat)
     in if n < 127 then c else if n = 133 \<or> n = 160 then CHR '' '' else CHR ''?'')"

definition is_c_space :: "char \<Rightarrow> bool" where
  "is_c_space c = (let n = (of_char c :: nat) in (9 \<le> n \<and> n \<le> 13) \<or> n = 32)"

definition number_text :: "string \<Rightarrow> string" where
  "number_text s = strip_with is_c_space (map to_ascii s)"

text \<open>A sign, when there is one, and the rest.\<close>

fun split_sign :: "string \<Rightarrow> bool \<times> string" where
  "split_sign [] = (False, [])"
| "split_sign (c # cs) =
     (if c = CHR ''-'' then (True, cs) else if c = CHR ''+'' then (False, cs) else (False, c # cs))"

text \<open>Digits with single underscores between them: \<^verbatim>\<open>digit ("_"? digit)*\<close>.\<close>

fun digit_run :: "string \<Rightarrow> bool" where
  "digit_run [] = False"
| "digit_run [c] = is_digit c"
| "digit_run (c # d # cs) =
     (is_digit c \<and> (if d = CHR ''_'' then digit_run cs else digit_run (d # cs)))"

text \<open>
  \<^verbatim>\<open>int(s)\<close> in base 10; \<open>None\<close> is \<^verbatim>\<open>ValueError\<close>, which is also what more than 4300 digits
  give.
\<close>

definition py_int :: "string \<Rightarrow> int option" where
  "py_int s =
     (case split_sign (number_text s) of (neg, body) \<Rightarrow>
        (let ds = filter is_digit body
         in if digit_run body \<and> length ds \<le> 4300
            then Some (if neg then - int (nat_of_digits ds) else int (nat_of_digits ds))
            else None))"

section \<open>Floating-point numbers\<close>

text \<open>
  A Python \<^verbatim>\<open>float\<close> is an IEEE 754 binary64 number: a sign and a magnitude, the magnitude
  being zero or a rational \<open>m * 2 ^ e\<close> with \<open>m < 2 ^ 53\<close> and \<open>- 1074 \<le> e\<close>, below
  \<open>2 ^ 1024\<close>; or an infinity; or not a number.  The sign is \<open>True\<close> for a negative number,
  so that \<open>Fin True 0\<close> is \<^verbatim>\<open>-0.0\<close>.
\<close>

datatype pyfloat = Fin bool rat | Inf bool | NaN

definition round_half_even :: "rat \<Rightarrow> int" where
  "round_half_even x =
     (let f = \<lfloor>x\<rfloor>; r = x - of_int f
      in if r < 1 / 2 then f else if 1 / 2 < r then f + 1 else if even f then f else f + 1)"

text \<open>\<open>ilog b x\<close> is the integer \<open>e\<close> with \<open>b ^ e \<le> x < b ^ (e + 1)\<close>, for \<open>0 < x\<close>.\<close>

definition ilog :: "nat \<Rightarrow> rat \<Rightarrow> int" where
  "ilog b x =
     (if 1 \<le> x then int (floorlog b (nat \<lfloor>x\<rfloor>)) - 1
      else (let n = int (floorlog b (nat \<lfloor>1 / x\<rfloor>))
            in if x = of_nat b powi (1 - n) then 1 - n else - n))"

text \<open>
  The binary64 number nearest to a magnitude \<open>x\<close>, ties to the even significand: the
  spacing of the numbers around \<open>x\<close> is \<open>2 ^ u\<close>, with 53 significant bits and no exponent
  below \<open>- 1074\<close>.
\<close>

definition round_mag :: "rat \<Rightarrow> rat" where
  "round_mag x =
     (if x = 0 then 0
      else (let u = max (ilog 2 x - 52) (- 1074)
            in of_int (round_half_even (x / 2 powi u)) * 2 powi u))"

definition float_of_rat :: "bool \<Rightarrow> rat \<Rightarrow> pyfloat" where
  "float_of_rat neg x = (let r = round_mag x in if 2 ^ 1024 \<le> r then Inf neg else Fin neg r)"

text \<open>A float literal of the source, such as \<^verbatim>\<open>9.7\<close> or \<^verbatim>\<open>-5.0\<close>.\<close>

definition float_lit :: "rat \<Rightarrow> pyfloat" where
  "float_lit q = float_of_rat (q < 0) \<bar>q\<bar>"

text \<open>The comparison \<^verbatim>\<open>a <= b\<close> of two floats.\<close>

definition signed :: "bool \<Rightarrow> rat \<Rightarrow> rat" where
  "signed neg x = (if neg then - x else x)"

fun float_le :: "pyfloat \<Rightarrow> pyfloat \<Rightarrow> bool" where
  "float_le NaN _ = False"
| "float_le _ NaN = False"
| "float_le (Fin s x) (Fin t y) = (signed s x \<le> signed t y)"
| "float_le (Fin s x) (Inf t) = (\<not> t)"
| "float_le (Inf s) (Fin t y) = s"
| "float_le (Inf s) (Inf t) = (s \<or> \<not> t)"

text \<open>The comparison \<^verbatim>\<open>a == b\<close> of two floats: the two zeros are equal, \<^verbatim>\<open>nan\<close> is not.\<close>

fun float_eq :: "pyfloat \<Rightarrow> pyfloat \<Rightarrow> bool" where
  "float_eq (Fin s x) (Fin t y) = (signed s x = signed t y)"
| "float_eq (Inf s) (Inf t) = (s = t)"
| "float_eq _ _ = False"

text \<open>
  \<^verbatim>\<open>round(v, 1)\<close>: the exact value of the float is rounded to a multiple of one tenth, ties
  to the even one, and the float nearest to that decimal is returned; the sign stays.
\<close>

fun py_round1 :: "pyfloat \<Rightarrow> pyfloat" where
  "py_round1 (Fin s x) = float_of_rat s (of_int (round_half_even (x * 10)) / 10)"
| "py_round1 v = v"

subsection \<open>Text to float\<close>

definition to_lower :: "char \<Rightarrow> char" where
  "to_lower c = (let n = (of_char c :: nat) in if 65 \<le> n \<and> n \<le> 90 then char_of (n + 32) else c)"

text \<open>
  An underscore is accepted only between two digits, and is then dropped
  (\<open>prev\<close> is the character in front).
\<close>

fun drop_underscores :: "char \<Rightarrow> string \<Rightarrow> string option" where
  "drop_underscores prev [] = (if prev = CHR ''_'' then None else Some [])"
| "drop_underscores prev (c # cs) =
     (if c = CHR ''_'' then (if is_digit prev then drop_underscores c cs else None)
      else if prev = CHR ''_'' \<and> \<not> is_digit c then None
      else map_option ((#) c) (drop_underscores c cs))"

text \<open>The exponent part: empty, or \<^verbatim>\<open>e\<close> or \<^verbatim>\<open>E\<close>, a sign when there is one, and digits.\<close>

definition parse_exponent :: "string \<Rightarrow> int option" where
  "parse_exponent s =
     (case s of [] \<Rightarrow> Some 0
      | e # r \<Rightarrow>
          (case split_sign r of (neg, ds) \<Rightarrow>
             if ds \<noteq> [] \<and> list_all is_digit ds
             then Some (if neg then - int (nat_of_digits ds) else int (nat_of_digits ds))
             else None))"

text \<open>
  The digits pre and post the point, at least one digit in all, and the exponent:
  the magnitude, as a rational.
\<close>

definition parse_decimal :: "string \<Rightarrow> rat option" where
  "parse_decimal s =
     (let mant = takeWhile (\<lambda>c. c \<noteq> CHR ''e'' \<and> c \<noteq> CHR ''E'') s;
          ex = dropWhile (\<lambda>c. c \<noteq> CHR ''e'' \<and> c \<noteq> CHR ''E'') s;
          ip = takeWhile is_digit mant;
          r = dropWhile is_digit mant
      in case (if r = [] then Some [] else if hd r = CHR ''.'' then Some (tl r) else None) of
           None \<Rightarrow> None
         | Some fp \<Rightarrow>
             if \<not> list_all is_digit fp \<or> ip @ fp = [] then None
             else (case parse_exponent ex of None \<Rightarrow> None
                   | Some e \<Rightarrow>
                       Some (of_nat (nat_of_digits (ip @ fp)) * 10 powi (e - int (length fp)))))"

text \<open>\<^verbatim>\<open>float(s)\<close>; \<open>None\<close> is \<^verbatim>\<open>ValueError\<close>.\<close>

definition py_float :: "string \<Rightarrow> pyfloat option" where
  "py_float s =
     (case drop_underscores (CHR 0x00) (number_text s) of None \<Rightarrow> None
      | Some t \<Rightarrow>
          (case split_sign t of (neg, body) \<Rightarrow>
             (let w = map to_lower body
              in if w = ''inf'' \<or> w = ''infinity'' then Some (Inf neg)
                 else if w = ''nan'' then Some NaN
                 else map_option (float_of_rat neg) (parse_decimal body))))"

subsection \<open>Float to text\<close>

text \<open>
  \<^verbatim>\<open>repr\<close> of a float writes the shortest run of digits that reads back as the same float.
  With \<open>n\<close> digits the candidate is the \<open>n\<close>-digit decimal nearest to the magnitude.
\<close>

definition repr_cand :: "rat \<Rightarrow> nat \<Rightarrow> int \<times> int" where
  "repr_cand x n =
     (let e = ilog 10 x - int n + 1 in (round_half_even (x / 10 powi e), e))"

definition cand_ok :: "rat \<Rightarrow> nat \<Rightarrow> bool" where
  "cand_ok x n = (case repr_cand x n of (d, e) \<Rightarrow> round_mag (of_int d * 10 powi e) = x)"

definition shortest_digits :: "rat \<Rightarrow> int \<times> int" where
  "shortest_digits x =
     (case find (cand_ok x) [1 ..< 17] of Some n \<Rightarrow> repr_cand x n | None \<Rightarrow> repr_cand x 17)"

definition strip_zeros :: "string \<Rightarrow> string" where
  "strip_zeros ds = rev (dropWhile (\<lambda>c. c = CHR ''0'') (rev ds))"

text \<open>
  The digits \<open>ds\<close> with the decimal point post the first \<open>decpt\<close> of them: fixed notation
  with at least one digit post the point when \<open>- 4 < decpt \<le> 16\<close>, exponent notation
  otherwise.
\<close>

definition format_digits :: "string \<Rightarrow> int \<Rightarrow> string" where
  "format_digits ds decpt =
     (if decpt \<le> - 4 \<or> 16 < decpt then
        hd ds # (if tl ds = [] then [] else CHR ''.'' # tl ds) @ ''e''
          @ (if decpt - 1 < 0 then ''-'' else ''+'')
          @ (if \<bar>decpt - 1\<bar> < 10 then ''0'' else [])
          @ digits_of_nat (nat \<bar>decpt - 1\<bar>)
      else if decpt \<le> 0 then ''0.'' @ replicate (nat (- decpt)) (CHR ''0'') @ ds
      else if int (length ds) \<le> decpt
        then ds @ replicate (nat decpt - length ds) (CHR ''0'') @ ''.0''
      else take (nat decpt) ds @ ''.'' @ drop (nat decpt) ds)"

definition repr_mag :: "rat \<Rightarrow> string" where
  "repr_mag x =
     (if x = 0 then ''0.0''
      else (case shortest_digits x of (d, e) \<Rightarrow>
              (let ds = digits_of_nat (nat d)
               in format_digits (strip_zeros ds) (e + int (length ds)))))"

fun float_repr :: "pyfloat \<Rightarrow> string" where
  "float_repr (Fin s x) = (if s then ''-'' else []) @ repr_mag x"
| "float_repr (Inf s) = (if s then ''-inf'' else ''inf'')"
| "float_repr NaN = ''nan''"

section \<open>The CSV reader\<close>

text \<open>Exceptions of the program that some path leaves uncaught.\<close>

datatype py_error = CsvError | ValueError | FileNotFoundError | TemplateEscape

text \<open>
  \<^verbatim>\<open>io.StringIO(raw)\<close> hands out the text line by line; a line ends post a line feed only,
  which stays in the line.
\<close>

fun lines_acc :: "string \<Rightarrow> string \<Rightarrow> string list" where
  "lines_acc cur [] = (if cur = [] then [] else [cur])"
| "lines_acc cur (c # cs) =
     (if c = CHR 0x0A then (cur @ [c]) # lines_acc [] cs else lines_acc (cur @ [c]) cs)"

definition io_lines :: "string \<Rightarrow> string list" where
  "io_lines raw = lines_acc [] raw"

text \<open>
  \<^verbatim>\<open>csv.reader\<close> with the default dialect but for the delimiter: quote character \<^verbatim>\<open>"\<close>,
  doubled quotes, no escape character, not strict.  The reader is the state machine of
  the \<^verbatim>\<open>_csv\<close> module; it sees every character of a line and then an end-of-line mark,
  here \<open>None\<close>.
\<close>

datatype csv_state =
  START_RECORD | START_FIELD | IN_FIELD | IN_QUOTED_FIELD | QUOTE_IN_QUOTED_FIELD | EAT_CRNL

record reader =
  rd_state :: csv_state
  rd_field :: string
  rd_fields :: "string list"

definition reader0 :: reader where
  "reader0 = \<lparr>rd_state = START_RECORD, rd_field = [], rd_fields = []\<rparr>"

definition field_limit :: nat where
  "field_limit = 131072"

definition parse_add_char :: "reader \<Rightarrow> char \<Rightarrow> py_error + reader" where
  "parse_add_char r c =
     (if field_limit \<le> length (rd_field r) then Inl CsvError
      else Inr (r\<lparr>rd_field := rd_field r @ [c]\<rparr>))"

definition parse_save_field :: "reader \<Rightarrow> reader" where
  "parse_save_field r = r\<lparr>rd_fields := rd_fields r @ [rd_field r], rd_field := []\<rparr>"

definition is_nl :: "char \<Rightarrow> bool" where
  "is_nl c = (c = CHR 0x0A \<or> c = CHR 0x0D)"

definition end_of_line :: "reader \<Rightarrow> char option \<Rightarrow> reader" where
  "end_of_line r c =
     (parse_save_field r)\<lparr>rd_state := (if c = None then START_RECORD else EAT_CRNL)\<rparr>"

definition start_field :: "char \<Rightarrow> reader \<Rightarrow> char option \<Rightarrow> py_error + reader" where
  "start_field delim r c =
     (case c of None \<Rightarrow> Inr (end_of_line r c)
      | Some ch \<Rightarrow>
          if is_nl ch then Inr (end_of_line r c)
          else if ch = CHR 0x22 then Inr (r\<lparr>rd_state := IN_QUOTED_FIELD\<rparr>)
          else if ch = delim then Inr (parse_save_field r)
          else map_sum id (\<lambda>r'. r'\<lparr>rd_state := IN_FIELD\<rparr>) (parse_add_char r ch))"

definition parse_process_char :: "char \<Rightarrow> reader \<Rightarrow> char option \<Rightarrow> py_error + reader" where
  "parse_process_char delim r c =
     (case rd_state r of
        START_RECORD \<Rightarrow>
          (case c of None \<Rightarrow> Inr r
           | Some ch \<Rightarrow>
               if is_nl ch then Inr (r\<lparr>rd_state := EAT_CRNL\<rparr>)
               else start_field delim (r\<lparr>rd_state := START_FIELD\<rparr>) c)
      | START_FIELD \<Rightarrow> start_field delim r c
      | IN_FIELD \<Rightarrow>
          (case c of None \<Rightarrow> Inr (end_of_line r c)
           | Some ch \<Rightarrow>
               if is_nl ch then Inr (end_of_line r c)
               else if ch = delim then Inr ((parse_save_field r)\<lparr>rd_state := START_FIELD\<rparr>)
               else parse_add_char r ch)
      | IN_QUOTED_FIELD \<Rightarrow>
          (case c of None \<Rightarrow> Inr r
           | Some ch \<Rightarrow>
               if ch = CHR 0x22 then Inr (r\<lparr>rd_state := QUOTE_IN_QUOTED_FIELD\<rparr>)
               else parse_add_char r ch)
      | QUOTE_IN_QUOTED_FIELD \<Rightarrow>
          (case c of None \<Rightarrow> Inr (end_of_line r c)
           | Some ch \<Rightarrow>
               if ch = CHR 0x22
                 then map_sum id (\<lambda>r'. r'\<lparr>rd_state := IN_QUOTED_FIELD\<rparr>) (parse_add_char r ch)
               else if ch = delim then Inr ((parse_save_field r)\<lparr>rd_state := START_FIELD\<rparr>)
               else if is_nl ch then Inr (end_of_line r c)
               else map_sum id (\<lambda>r'. r'\<lparr>rd_state := IN_FIELD\<rparr>) (parse_add_char r ch))
      | EAT_CRNL \<Rightarrow>
          (case c of None \<Rightarrow> Inr (r\<lparr>rd_state := START_RECORD\<rparr>)
           | Some ch \<Rightarrow> if is_nl ch then Inr r else Inl CsvError))"

text \<open>One line: its characters, then the end-of-line mark.\<close>

fun feed :: "char \<Rightarrow> reader \<Rightarrow> string \<Rightarrow> py_error + reader" where
  "feed delim r [] = parse_process_char delim r None"
| "feed delim r (c # cs) =
     (case parse_process_char delim r (Some c) of
        Inl e \<Rightarrow> Inl e
      | Inr r' \<Rightarrow> feed delim r' cs)"

text \<open>
  \<^verbatim>\<open>list(reader)\<close>: a record is complete when the machine is back in \<open>START_RECORD\<close>
  post a line; the input ending inside a quoted field closes the record.
\<close>

fun csv_records :: "char \<Rightarrow> reader \<Rightarrow> string list \<Rightarrow> py_error + string list list" where
  "csv_records delim r [] =
     (if rd_field r \<noteq> [] \<or> rd_state r = IN_QUOTED_FIELD
      then Inr [rd_fields (parse_save_field r)] else Inr [])"
| "csv_records delim r (l # ls) =
     (case feed delim r l of
        Inl e \<Rightarrow> Inl e
      | Inr r' \<Rightarrow>
          if rd_state r' = START_RECORD
          then map_sum id ((#) (rd_fields r')) (csv_records delim reader0 ls)
          else csv_records delim r' ls)"

definition csv_reader :: "char \<Rightarrow> string \<Rightarrow> py_error + string list list" where
  "csv_reader delim raw = csv_records delim reader0 (io_lines raw)"

section \<open>The parser of \<^verbatim>\<open>fetch_data\<close>\<close>

text \<open>
  Lines 57 to 63, the body of the \<^verbatim>\<open>try\<close>: both conversions may raise \<^verbatim>\<open>ValueError\<close>, which
  skips the pair.
\<close>

definition try_pair ::
  "int \<Rightarrow> (int, pyfloat) dict \<Rightarrow> string \<Rightarrow> string \<Rightarrow> (int, pyfloat) dict" where
  "try_pair current_year data c1 c2 =
     (case py_int c1 of None \<Rightarrow> data
      | Some year \<Rightarrow>
          (case py_float c2 of None \<Rightarrow> data
           | Some v \<Rightarrow>
               if 1993 \<le> year \<and> year \<le> current_year
                  \<and> float_le (float_lit (- 5)) v \<and> float_le v (float_lit 100)
               then AList.update year (py_round1 v) data
               else data))"

text \<open>Line 56: \<^verbatim>\<open>for i in range(len(clean) - 1)\<close> over the pairs of neighbours.\<close>

fun scan_row :: "int \<Rightarrow> (int, pyfloat) dict \<Rightarrow> string list \<Rightarrow> (int, pyfloat) dict" where
  "scan_row current_year data (c1 # c2 # cs) =
     scan_row current_year (try_pair current_year data c1 c2) (c2 # cs)"
| "scan_row current_year data cs = data"

text \<open>Lines 54 and 55: every row but the first, its cells cleaned.\<close>

definition scan_rows ::
  "int \<Rightarrow> (int, pyfloat) dict \<Rightarrow> string list list \<Rightarrow> (int, pyfloat) dict" where
  "scan_rows current_year data rows =
     fold (\<lambda>row d. scan_row current_year d (map clean_cell row)) rows data"

text \<open>Lines 49 to 65: the delimiters in turn, until one gives data.\<close>

fun try_seps ::
  "int \<Rightarrow> string \<Rightarrow> string \<Rightarrow> (int, pyfloat) dict \<Rightarrow> py_error + (int, pyfloat) dict" where
  "try_seps current_year raw [] data = Inr data"
| "try_seps current_year raw (sep # seps) data =
     (case csv_reader sep raw of
        Inl e \<Rightarrow> Inl e
      | Inr rows \<Rightarrow>
          if length rows < 2 then try_seps current_year raw seps data
          else (let data' = scan_rows current_year data (tl rows)
                in if data' \<noteq> [] then Inr data' else try_seps current_year raw seps data'))"

definition separators :: string where
  "separators = [CHR '','', CHR '';'', CHR 0x09]"

definition parse :: "string \<Rightarrow> int \<Rightarrow> py_error + (int, pyfloat) dict" where
  "parse raw current_year = try_seps current_year raw separators []"

section \<open>The clock and the output streams\<close>

text \<open>
  What \<^verbatim>\<open>datetime.now()\<close> returned, as far as the program reads it.  \<^verbatim>\<open>%d\<close> and \<^verbatim>\<open>%m\<close> are
  two digits and \<^verbatim>\<open>%Y\<close> is four digits, filled with zeros on the left.
\<close>

record datetime =
  dt_year :: nat
  dt_month :: nat
  dt_day :: nat

definition zfill :: "nat \<Rightarrow> string \<Rightarrow> string" where
  "zfill w s = replicate (w - length s) (CHR ''0'') @ s"

definition strftime_dmY :: "datetime \<Rightarrow> string" where
  "strftime_dmY now =
     zfill 2 (digits_of_nat (dt_day now)) @ ''. '' @ zfill 2 (digits_of_nat (dt_month now))
       @ ''. '' @ zfill 4 (digits_of_nat (dt_year now))"

text \<open>
  The world of one run: the text of \<^verbatim>\<open>index.html\<close> (\<open>None\<close> when the file is missing),
  what was printed on the two streams, and how often the file was written.  A printed
  line is recorded as the format string of the source, its arguments left out.
\<close>

record world =
  html_file :: "string option"
  out :: "string list"
  err :: "string list"
  writes :: nat

definition print_out :: "world \<Rightarrow> string \<Rightarrow> world" where
  "print_out w s = w\<lparr>out := out w @ [s]\<rparr>"

definition print_err :: "world \<Rightarrow> string \<Rightarrow> world" where
  "print_err w s = w\<lparr>err := err w @ [s]\<rparr>"

section \<open>\<^verbatim>\<open>fetch_data\<close>\<close>

text \<open>
  The response is \<open>None\<close> when the request or the decoding raised, which line 38 catches.
  The preview of the first lines of the response (lines 43 and 44) is left out of the
  record of the output.  An exception of the CSV reader is not caught.
\<close>

definition fetch_data ::
  "datetime \<Rightarrow> string option \<Rightarrow> world \<Rightarrow> (py_error + (int, pyfloat) dict) \<times> world" where
  "fetch_data now response w =
     (let w1 = print_out w ''[{}] Stahuji data z CSU API...''
      in case response of
           None \<Rightarrow> (Inr [], print_err w1 ''  CHYBA pri stahovani: {}'')
         | Some raw \<Rightarrow>
             (let w2 = print_out w1 ''  Odpoved API ({} znaku), prvni radky:''
              in case parse raw (int (dt_year now)) of
                   Inl e \<Rightarrow> (Inl e, w2)
                 | Inr data \<Rightarrow>
                     if data \<noteq> []
                     then (Inr data, print_out w2 ''  Nacteno {} let z CSU API ({} - {}).'')
                     else (Inr data,
                           print_err
                             (print_err w2 ''  VAROVANI: Z API nebyla nactena zadna data.'')
                             ''  Cela odpoved:{}'')))"

section \<open>\<^verbatim>\<open>build_raw_block\<close>\<close>

definition FIXED_HISTORICAL :: "(int, pyfloat) dict" where
  "FIXED_HISTORICAL =
     [(1990, float_lit (97 / 10)), (1991, float_lit (566 / 10)), (1992, float_lit (111 / 10))]"

text \<open>Lines 85 to 93: the comment of a year.\<close>

definition comment_for :: "datetime \<Rightarrow> int \<Rightarrow> int \<Rightarrow> string" where
  "comment_for now max_year year =
     (if year = 1990 then ''  // CSFR / CSU hist. publikace''
      else if year = 1991 then ''  // CSFR - liberalizace cen''
      else if year = 1992 then ''  // CSFR / CSU hist. publikace''
      else if year = max_year then ''  // CSU, aktualizovano '' @ strftime_dmY now
      else [])"

text \<open>Line 94: \<^verbatim>\<open>"  {}: {:>5},{}".format(year, value, comment)\<close>.\<close>

definition format_line :: "int \<Rightarrow> pyfloat \<Rightarrow> string \<Rightarrow> string" where
  "format_line year v comment =
     ''  '' @ str_int year @ '': '' @ rjust 5 (float_repr v) @ '','' @ comment"

definition block_lines :: "datetime \<Rightarrow> (int, pyfloat) dict \<Rightarrow> string list" where
  "block_lines now combined =
     map (\<lambda>(year, v). format_line year v (comment_for now (Max (set (dict_keys combined))) year))
       (sort_key fst combined)"

text \<open>
  The loop of line 83 visits the keys in ascending order and looks each value up; as the
  keys of a dictionary are distinct, these are the items sorted by key.  \<^verbatim>\<open>max\<close> of no keys
  and the text of an integer of more than 4300 digits raise \<^verbatim>\<open>ValueError\<close>.
\<close>

definition build_raw_block :: "datetime \<Rightarrow> (int, pyfloat) dict \<Rightarrow> py_error + string" where
  "build_raw_block now api_data =
     (let combined = merge FIXED_HISTORICAL api_data
      in if combined = [] \<or> (\<exists>year \<in> set (dict_keys combined). 10 ^ 4300 \<le> \<bar>year\<bar>)
         then Inl ValueError
         else Inr (''const RAW = {'' @ [CHR 0x0A] @ str_join [CHR 0x0A] (block_lines now combined)
                     @ [CHR 0x0A] @ ''};''))"

section \<open>\<^verbatim>\<open>update_html\<close>\<close>

text \<open>
  The pattern \<^verbatim>\<open>const RAW = \{[^}]+\};\<close> is made of literal characters and of one item
  \<^verbatim>\<open>[^}]+\<close>: one or more characters other than the given one, as many as possible, fewer
  when the rest of the pattern does not match post them.  \<open>re_match p s\<close> is the length
  of the match of \<open>p\<close> at the start of \<open>s\<close>.
\<close>

datatype re_item = Lit char | NotCharPlus char

fun try_lengths :: "(string \<Rightarrow> nat option) \<Rightarrow> string \<Rightarrow> nat \<Rightarrow> nat option" where
  "try_lengths k s 0 = None"
| "try_lengths k s (Suc n) =
     (case k (drop (Suc n) s) of
        Some m \<Rightarrow> Some (Suc n + m)
      | None \<Rightarrow> try_lengths k s n)"

primrec re_match :: "re_item list \<Rightarrow> string \<Rightarrow> nat option" where
  "re_match [] = (\<lambda>s. Some 0)"
| "re_match (i # p) =
     (\<lambda>s. case i of
        Lit c \<Rightarrow>
          (case s of [] \<Rightarrow> None
           | x # xs \<Rightarrow> if x = c then map_option Suc (re_match p xs) else None)
      | NotCharPlus c \<Rightarrow>
          try_lengths (re_match p) s (length (takeWhile (\<lambda>x. x \<noteq> c) s)))"

definition pattern :: "re_item list" where
  "pattern = map Lit ''const RAW = {'' @ [NotCharPlus (CHR ''}'')] @ map Lit ''};''"

text \<open>
  \<^verbatim>\<open>re.search\<close>: the leftmost position with a match; the text in front of the match, the
  match and the text behind it.
\<close>

fun search_from :: "re_item list \<Rightarrow> string \<Rightarrow> string \<Rightarrow> (string \<times> string \<times> string) option" where
  "search_from p pre s =
     (case re_match p s of
        Some n \<Rightarrow> Some (pre, take n s, drop n s)
      | None \<Rightarrow> (case s of [] \<Rightarrow> None | x # xs \<Rightarrow> search_from p (pre @ [x]) xs))"

declare search_from.simps [simp del]

definition re_search :: "re_item list \<Rightarrow> string \<Rightarrow> (string \<times> string \<times> string) option" where
  "re_search p s = search_from p [] s"

text \<open>
  Reading a text file turns \<^verbatim>\<open>\r\n\<close> and a lone \<^verbatim>\<open>\r\<close> into \<^verbatim>\<open>\n\<close>; writing, on POSIX,
  changes nothing.
\<close>

fun universal_newlines :: "string \<Rightarrow> string" where
  "universal_newlines [] = []"
| "universal_newlines [c] = [if c = CHR 0x0D then CHR 0x0A else c]"
| "universal_newlines (c # d # cs) =
     (if c = CHR 0x0D then
        (if d = CHR 0x0A then CHR 0x0A # universal_newlines cs
         else CHR 0x0A # universal_newlines (d # cs))
      else c # universal_newlines (d # cs))"

text \<open>
  \<^verbatim>\<open>re.sub(pattern, new_raw_block, html, count=1)\<close> replaces the first match.  The
  replacement is a template in which a backslash starts an escape; a replacement with a
  backslash is outside this model, which stops with \<open>TemplateEscape\<close> there.
\<close>

definition update_html :: "string \<Rightarrow> world \<Rightarrow> (py_error + bool) \<times> world" where
  "update_html new_raw_block w =
     (case html_file w of
        None \<Rightarrow> (Inl FileNotFoundError, w)
      | Some content \<Rightarrow>
          (let html = universal_newlines content
           in case re_search pattern html of
                None \<Rightarrow>
                  (Inr False,
                   print_err w ''  CHYBA: Blok 'const RAW' nebyl v index.html nalezen.'')
              | Some (pre, m, post) \<Rightarrow>
                  if CHR 0x5C \<in> set new_raw_block then (Inl TemplateEscape, w)
                  else (let new_html = pre @ new_raw_block @ post
                        in if new_html = html
                           then (Inr False,
                                 print_out w ''  Zadna zmena dat - soubor nebyl prepsan.'')
                           else (Inr True,
                                 print_out
                                   (w\<lparr>html_file := Some new_html, writes := writes w + 1\<rparr>)
                                   ''  index.html aktualizovan.''))))"

section \<open>The program\<close>

text \<open>
  Lines 121 to 131.  The result is the exit status of the process: \<^verbatim>\<open>sys.exit(0)\<close> gives 0,
  and an exception that nothing catches ends the process with a traceback on the error
  stream and status 1.
\<close>

definition uncaught :: "world \<Rightarrow> nat \<times> world" where
  "uncaught w = (1, print_err w ''Traceback (most recent call last):'')"

definition main :: "datetime \<Rightarrow> string option \<Rightarrow> world \<Rightarrow> nat \<times> world" where
  "main now response w =
     (case fetch_data now response w of
        (Inl e, w1) \<Rightarrow> uncaught w1
      | (Inr api_data, w1) \<Rightarrow>
          if api_data = []
          then (0, print_out (print_out w1 ''Zadna data z API - aktualizace preskocena.'')
                     ''Stranka zustava nezmenena, fallback data v HTML jsou stale platna.'')
          else (case build_raw_block now api_data of
                  Inl e \<Rightarrow> uncaught w1
                | Inr new_block \<Rightarrow>
                    (case update_html new_block w1 of
                       (Inl e, w2) \<Rightarrow> uncaught w2
                     | (Inr changed, w2) \<Rightarrow> (0, w2))))"

section \<open>Properties of dictionaries\<close>

lemma is_dict_Nil [simp]: "is_dict []"
  by (simp add: is_dict_def)

lemma is_dict_update: "is_dict d \<Longrightarrow> is_dict (AList.update k v d)"
  by (simp add: is_dict_def distinct_update)

lemma is_dict_dict_update: "is_dict d \<Longrightarrow> is_dict (dict_update d other)"
  unfolding dict_update_def
  by (induction other arbitrary: d) (auto simp: is_dict_update)

lemma is_dict_merge: "is_dict (merge fixed fetched)"
  by (simp add: merge_def is_dict_dict_update)

lemma map_of_dict_update_rev:
  "map_of (dict_update d other) = map_of d ++ map_of (rev other)"
  unfolding dict_update_def
proof (induction other arbitrary: d)
  case Nil
  show ?case by simp
next
  case (Cons p ps)
  obtain k v where p: "p = (k, v)" by (cases p)
  have "map_of (fold (\<lambda>(k, v). AList.update k v) ps (AList.update k v d))
        = (map_of d)(k \<mapsto> v) ++ map_of (rev ps)"
    by (simp only: Cons.IH update_conv')
  also have "\<dots> = map_of d ++ ([k \<mapsto> v] ++ map_of (rev ps))"
    by (rule ext) (simp add: map_add_def split: option.splits)
  finally show ?case
    by (simp add: p)
qed

lemma map_of_rev_dict: "is_dict d \<Longrightarrow> map_of (rev d) = map_of d"
  unfolding is_dict_def
  by (subst map_of_inject_set) (simp_all add: rev_map [symmetric])

lemma map_of_dict_update:
  "is_dict other \<Longrightarrow> map_of (dict_update d other) = map_of d ++ map_of other"
  by (simp add: map_of_dict_update_rev map_of_rev_dict)

lemma map_of_merge:
  "is_dict fixed \<Longrightarrow> is_dict fetched \<Longrightarrow>
   map_of (merge fixed fetched) = map_of fixed ++ map_of fetched"
  by (simp add: merge_def map_of_dict_update)

lemma set_keys_dict_update:
  "set (dict_keys (dict_update d other)) = set (dict_keys d) \<union> set (dict_keys other)"
proof -
  have "dom (map_of (dict_update d other)) = dom (map_of d) \<union> dom (map_of (rev other))"
    by (simp add: map_of_dict_update_rev Un_commute)
  then show ?thesis
    by (simp add: dom_map_of_conv_image_fst dict_keys_def)
qed

lemma set_keys_merge:
  "set (dict_keys (merge fixed fetched)) = set (dict_keys fixed) \<union> set (dict_keys fetched)"
  unfolding merge_def set_keys_dict_update
  by (simp add: dict_keys_def)

section \<open>The merger\<close>

text \<open>
  C7.  The merge is right-biased and commutative on disjoint keys: for dictionaries
  \<open>fixed\<close> and \<open>fetched\<close>, the merged dictionary returns the value of \<open>fetched\<close> at every
  key of \<open>fetched\<close>, the value of \<open>fixed\<close> at every key of \<open>fixed\<close> that \<open>fetched\<close> lacks,
  and when the two key sets are disjoint, merging in either order gives dictionaries with
  the same keys and the same value at each key.
\<close>

theorem merge_right_biased_commutative:
  assumes "is_dict fixed" and "is_dict fetched"
  shows "(\<forall>y \<in> set (dict_keys fetched).
            map_of (merge fixed fetched) y = map_of fetched y) \<and>
         (\<forall>y \<in> set (dict_keys fixed) - set (dict_keys fetched).
            map_of (merge fixed fetched) y = map_of fixed y) \<and>
         (set (dict_keys fixed) \<inter> set (dict_keys fetched) = {} \<longrightarrow>
            map_of (merge fixed fetched) = map_of (merge fetched fixed))"
proof -
  have m: "map_of (merge fixed fetched) = map_of fixed ++ map_of fetched"
    using assms by (rule map_of_merge)
  have m': "map_of (merge fetched fixed) = map_of fetched ++ map_of fixed"
    using assms(2) assms(1) by (rule map_of_merge)
  have d: "dom (map_of fixed) = set (dict_keys fixed)"
    "dom (map_of fetched) = set (dict_keys fetched)"
    by (simp_all add: dom_map_of_conv_image_fst dict_keys_def)
  have "\<forall>y \<in> set (dict_keys fetched). map_of (merge fixed fetched) y = map_of fetched y"
    using d by (auto simp: m map_add_dom_app_simps)
  moreover have "\<forall>y \<in> set (dict_keys fixed) - set (dict_keys fetched).
          map_of (merge fixed fetched) y = map_of fixed y"
    using d by (auto simp: m map_add_dom_app_simps)
  moreover have "set (dict_keys fixed) \<inter> set (dict_keys fetched) = {} \<longrightarrow>
          map_of (merge fixed fetched) = map_of (merge fetched fixed)"
    using d by (auto simp: m m' intro: map_add_comm)
  ultimately show ?thesis
    by blast
qed

theorem merge_right_biased_commutative_witness:
  "map_of (merge [(1990 :: int, 97 :: int), (1991, 566)] [(2023, 107), (2024, 20)]) 2023
     = Some 107 \<and>
   map_of (merge [(1990 :: int, 97 :: int), (1991, 566)] [(2023, 107), (2024, 20)]) 1991
     = Some 566 \<and>
   map_of (merge [(1990 :: int, 97 :: int), (1991, 566)] [(2023, 107), (2024, 20)])
     = map_of (merge [(2023, 107), (2024, 20)] [(1990 :: int, 97 :: int), (1991, 566)])"
proof -
  let ?a = "[(1990 :: int, 97 :: int), (1991, 566)]"
  let ?b = "[(2023 :: int, 107 :: int), (2024, 20)]"
  have d: "is_dict ?a" "is_dict ?b"
    by (simp_all add: is_dict_def)
  have k: "2023 \<in> set (dict_keys ?b)" "1991 \<in> set (dict_keys ?a) - set (dict_keys ?b)"
    "set (dict_keys ?a) \<inter> set (dict_keys ?b) = {}"
    by (simp_all add: dict_keys_def)
  have v: "map_of ?b 2023 = Some 107" "map_of ?a 1991 = Some 566"
    by simp_all
  from merge_right_biased_commutative [OF d] k v show ?thesis
    by metis
qed

end
